theory Spec2Isabelle
  imports Complex_Main
begin

section \<open>Shared trade models\<close>

text \<open>
  Modelled from the spec: the module \<^verbatim>\<open>shared/models/trade_models.py\<close> (the enums
  OrderSide, OrderType, OrderStatus, PositionSide and the dataclasses Order, Position,
  Signal, AccountInfo) is imported by every file of \<^verbatim>\<open>live_trading\<close> but is not
  among the sources.  The types below carry the fields and enum members that the sources
  read and write (the constructor calls in \<^verbatim>\<open>order_executor.py\<close>,
  \<^verbatim>\<open>exchange_connector.py\<close> and \<^verbatim>\<open>position_manager.py\<close> name them) and that
  section 3 of the spec lists.

  Python floats are modelled as \<^typ>\<open>real\<close>: rounding is not modelled.  A
  \<^verbatim>\<open>datetime\<close> is a number of seconds; \<^verbatim>\<open>datetime.now()\<close> is a parameter
  \<open>now\<close> of every operation that reads the clock.  Log output is not modelled.
\<close>

type_synonym datetime = nat

datatype PositionSide = LONG | SHORT

datatype OrderSide = BUY | SELL

datatype OrderType = MARKET | LIMIT

datatype OrderStatus =
  CREATED | PENDING | PARTIALLY_FILLED | FILLED | CANCELLED | FAILED | UNKNOWN

datatype py_error = ValueError | TypeError | AttributeError | ZeroDivisionError | KeyError

record Position =
  symbol :: string
  side :: PositionSide
  size_pos :: real
  entry_price :: real
  current_price :: real
  unrealized_pnl :: real
  realized_pnl :: real
  margin :: real
  percentage :: real
  timestamp :: datetime
  pos_order_id :: "string option"

section \<open>PositionManager (live\_trading/risk\_management/position\_manager.py)\<close>

text \<open>
  The manager's state is the dictionary \<^verbatim>\<open>positions\<close> and the list
  \<^verbatim>\<open>position_history\<close>.  Every Position object of the dictionary is referenced from
  the dictionary only (the history holds fresh copies), so the in-place updates of
  \<^verbatim>\<open>_add_to_position\<close>, \<^verbatim>\<open>reduce_position\<close> and \<^verbatim>\<open>close_position\<close> are
  updates of the dictionary entry.  An operation returns its Python result, or the
  exception it raises, together with the state it leaves behind.
\<close>

record PositionManager =
  positions :: "string \<rightharpoonup> Position"
  position_history :: "Position list"
  max_positions :: int
  position_timeout :: int

definition has_position :: "PositionManager \<Rightarrow> string \<Rightarrow> bool" where
  "has_position pm smb =
     (case positions pm smb of None \<Rightarrow> False | Some p \<Rightarrow> size_pos p > 0)"

definition get_position :: "PositionManager \<Rightarrow> string \<Rightarrow> Position option" where
  "get_position pm smb = positions pm smb"

text \<open>
  \<^verbatim>\<open>_add_to_position\<close>: \<^verbatim>\<open>total_cost / new_size\<close> raises ZeroDivisionError when
  the new size is zero, before the position is touched.
\<close>

definition add_to_position ::
  "PositionManager \<Rightarrow> string \<Rightarrow> real \<Rightarrow> real \<Rightarrow> string option \<Rightarrow> datetime
     \<Rightarrow> (py_error + Position) \<times> PositionManager" where
  "add_to_position pm smb additional_size price oid now =
     (case positions pm smb of
        None \<Rightarrow> (Inl KeyError, pm)
      | Some position \<Rightarrow>
          (let total_cost = size_pos position * entry_price position + additional_size * price;
               new_size = size_pos position + additional_size
           in if new_size = 0 then (Inl ZeroDivisionError, pm)
              else
                (let new_entry_price = total_cost / new_size;
                     position' = position
                       \<lparr>size_pos := new_size,
                        entry_price := new_entry_price,
                        margin := margin position + additional_size,
                        timestamp := now\<rparr>
                 in (Inr position', pm\<lparr>positions := (positions pm)(smb \<mapsto> position')\<rparr>))))"

text \<open>
  \<^verbatim>\<open>close_position\<close>: the realized PnL is written to the live position first; the
  percentage of the history record divides by \<^verbatim>\<open>entry_price * size\<close> and raises
  ZeroDivisionError when that product is zero, after the live position was written and
  before the history is appended.  Otherwise the record is appended to the history and
  the symbol is deleted from the dictionary.  The argument \<open>reason\<close> is only logged.
\<close>

definition close_position ::
  "PositionManager \<Rightarrow> string \<Rightarrow> string \<Rightarrow> real option \<Rightarrow> datetime
     \<Rightarrow> (py_error + Position option) \<times> PositionManager" where
  "close_position pm smb reason close_price_arg now =
     (if \<not> has_position pm smb then (Inr None, pm)
      else
        (case positions pm smb of
           None \<Rightarrow> (Inl KeyError, pm)
         | Some position \<Rightarrow>
             (let close_price =
                    (case close_price_arg of None \<Rightarrow> current_price position | Some c \<Rightarrow> c);
                  pnl = (if side position = LONG
                         then (close_price - entry_price position) * size_pos position
                         else (entry_price position - close_price) * size_pos position);
                  position' = position\<lparr>realized_pnl := pnl, unrealized_pnl := 0\<rparr>
              in if entry_price position * size_pos position = 0
                 then (Inl ZeroDivisionError,
                       pm\<lparr>positions := (positions pm)(smb \<mapsto> position')\<rparr>)
                 else
                   (let closed_position =
                          \<lparr>symbol = symbol position,
                           side = side position,
                           size_pos = size_pos position,
                           entry_price = entry_price position,
                           current_price = close_price,
                           unrealized_pnl = 0,
                           realized_pnl = pnl,
                           margin = margin position,
                           percentage =
                             (pnl / (entry_price position * size_pos position)) * 100,
                           timestamp = now,
                           pos_order_id = pos_order_id position\<rparr>
                    in (Inr (Some closed_position),
                        pm\<lparr>position_history := position_history pm @ [closed_position],
                           positions := (positions pm)(smb := None)\<rparr>)))))"

text \<open>
  \<^verbatim>\<open>open_position\<close>: a live position of the same side is added to; a live position
  of the other side is closed first (at its current price), and the new position is then
  created.  That branch reads the clock twice: \<open>now_close\<close> is what \<^verbatim>\<open>datetime.now()\<close>
  returns inside \<^verbatim>\<open>close_position\<close>, \<open>now\<close> what it returns when the new position is
  built; the other branches read the clock once (\<open>now\<close>).  The reason string passed to
  \<^verbatim>\<open>close_position\<close> is a Chinese log text in the source.
\<close>

definition open_position ::
  "PositionManager \<Rightarrow> string \<Rightarrow> PositionSide \<Rightarrow> real \<Rightarrow> real \<Rightarrow> string option
     \<Rightarrow> datetime \<Rightarrow> datetime \<Rightarrow> (py_error + Position) \<times> PositionManager" where
  "open_position pm smb sd sz entry oid now_close now =
     (let create = (\<lambda>pm1.
            (let position =
                   \<lparr>symbol = smb, side = sd, size_pos = sz, entry_price = entry,
                    current_price = entry, unrealized_pnl = 0, realized_pnl = 0,
                    margin = sz, percentage = 0, timestamp = now, pos_order_id = oid\<rparr>
             in (Inr position, pm1\<lparr>positions := (positions pm1)(smb \<mapsto> position)\<rparr>)))
      in if has_position pm smb then
           (case positions pm smb of
              None \<Rightarrow> (Inl KeyError, pm)
            | Some existing_position \<Rightarrow>
                if side existing_position = sd
                then add_to_position pm smb sz entry oid now
                else
                  (case close_position pm smb ''opposite side, close'' None now_close of
                     (Inl e, pm1) \<Rightarrow> (Inl e, pm1)
                   | (Inr _, pm1) \<Rightarrow> create pm1))
         else create pm)"

text \<open>
  \<^verbatim>\<open>reduce_position\<close>: a reduction by at least the whole size is a close at the given
  price; a smaller one realizes the partial PnL on the live position.
\<close>

definition reduce_position ::
  "PositionManager \<Rightarrow> string \<Rightarrow> real \<Rightarrow> real \<Rightarrow> string \<Rightarrow> datetime
     \<Rightarrow> (py_error + Position option) \<times> PositionManager" where
  "reduce_position pm smb reduce_size price reason now =
     (if \<not> has_position pm smb then (Inr None, pm)
      else
        (case positions pm smb of
           None \<Rightarrow> (Inl KeyError, pm)
         | Some position \<Rightarrow>
             if reduce_size \<ge> size_pos position
             then close_position pm smb reason (Some price) now
             else
               (let partial_pnl =
                      (if side position = LONG
                       then (price - entry_price position) * reduce_size
                       else (entry_price position - price) * reduce_size);
                    position' = position
                      \<lparr>size_pos := size_pos position - reduce_size,
                       margin := margin position - reduce_size,
                       realized_pnl := realized_pnl position + partial_pnl,
                       timestamp := now\<rparr>
                in (Inr (Some position'),
                    pm\<lparr>positions := (positions pm)(smb \<mapsto> position')\<rparr>))))"

text \<open>The manager as constructed from a configuration without entries.\<close>

definition new_position_manager :: PositionManager where
  "new_position_manager =
     \<lparr>positions = Map.empty, position_history = [], max_positions = 5,
      position_timeout = 3600\<rparr>"

section \<open>RiskManager (live\_trading/risk\_management/risk\_manager.py)\<close>

text \<open>
  Modelled from the spec: of Signal and AccountInfo (in the missing
  \<^verbatim>\<open>trade_models.py\<close>) the fields that section 3 of the spec lists and the sources
  read.
\<close>

record Signal =
  signal_symbol :: string
  action :: string
  strength :: real
  signal_price :: real

record AccountInfo =
  total_wallet_balance :: real
  available_balance :: real
  total_unrealized_pnl :: real
  total_margin_balance :: real

text \<open>
  The alerts of \<^verbatim>\<open>_check_risk_limits\<close> are formatted Chinese texts in the source;
  the model keeps which alert was raised.  The list \<^verbatim>\<open>trade_history\<close> is written
  by \<^verbatim>\<open>record_trade\<close> only and read by no operation modelled here.
\<close>

datatype risk_alert = DrawdownAlert | DailyLossAlert | TradeCountAlert

record RiskManager =
  max_position_percentage :: real
  max_daily_loss_percentage :: real
  max_drawdown_percentage :: real
  stop_loss_percentage :: real
  take_profit_percentage :: real
  min_position_size :: real
  max_leverage :: real
  daily_start_balance :: real
  peak_balance :: real
  current_balance :: real
  daily_pnl :: real
  total_pnl :: real
  current_drawdown :: real
  max_drawdown :: real
  trades_today :: int
  max_trades_per_day :: int
  trading_enabled :: bool
  risk_alerts :: "risk_alert list"

text \<open>The manager as \<^verbatim>\<open>__init__\<close> builds it from an empty configuration.\<close>

definition new_risk_manager :: RiskManager where
  "new_risk_manager =
     \<lparr>max_position_percentage = 95 / 100,
      max_daily_loss_percentage = 5 / 100,
      max_drawdown_percentage = 10 / 100,
      stop_loss_percentage = 2 / 100,
      take_profit_percentage = 6 / 100,
      min_position_size = 10,
      max_leverage = 20,
      daily_start_balance = 0,
      peak_balance = 0,
      current_balance = 0,
      daily_pnl = 0,
      total_pnl = 0,
      current_drawdown = 0,
      max_drawdown = 0,
      trades_today = 0,
      max_trades_per_day = 50,
      trading_enabled = True,
      risk_alerts = []\<rparr>"

definition check_risk_limits :: "RiskManager \<Rightarrow> RiskManager" where
  "check_risk_limits rm =
     rm\<lparr>risk_alerts :=
          (if current_drawdown rm > max_drawdown_percentage rm * (8 / 10)
           then [DrawdownAlert] else [])
          @ (if daily_start_balance rm > 0
                \<and> daily_pnl rm < 0
                \<and> \<bar>daily_pnl rm\<bar> / daily_start_balance rm
                    > max_daily_loss_percentage rm * (8 / 10)
             then [DailyLossAlert] else [])
          @ (if real_of_int (trades_today rm) > real_of_int (max_trades_per_day rm) * (8 / 10)
             then [TradeCountAlert] else [])\<rparr>"

definition update_account_info :: "RiskManager \<Rightarrow> AccountInfo \<Rightarrow> RiskManager" where
  "update_account_info rm account_info =
     (let rm1 = rm\<lparr>current_balance := total_wallet_balance account_info\<rparr>;
          rm2 = (if current_balance rm1 > peak_balance rm1
                 then rm1\<lparr>peak_balance := current_balance rm1\<rparr> else rm1);
          rm3 = (if peak_balance rm2 > 0
                 then (let dd = (peak_balance rm2 - current_balance rm2) / peak_balance rm2
                       in rm2\<lparr>current_drawdown := dd,
                              max_drawdown := max (max_drawdown rm2) dd\<rparr>)
                 else rm2)
      in check_risk_limits rm3)"

definition validate_signal ::
  "RiskManager \<Rightarrow> Signal \<Rightarrow> AccountInfo \<Rightarrow> Position option \<Rightarrow> bool" where
  "validate_signal rm signal account_info current_position =
     (if \<not> trading_enabled rm then False
      else if trades_today rm \<ge> max_trades_per_day rm then False
      else if current_drawdown rm > max_drawdown_percentage rm then False
      else
        (let daily_loss_percentage =
               (if daily_start_balance rm > 0
                then \<bar>daily_pnl rm\<bar> / daily_start_balance rm else 0)
         in if daily_pnl rm < 0 \<and> daily_loss_percentage > max_daily_loss_percentage rm
            then False
            else True))"

definition calculate_position_size :: "RiskManager \<Rightarrow> Signal \<Rightarrow> AccountInfo \<Rightarrow> real" where
  "calculate_position_size rm signal account_info =
     (let available = available_balance account_info;
          base_position_size = available * max_position_percentage rm;
          adjusted_size = base_position_size * strength signal;
          adjusted_size = max adjusted_size (min_position_size rm);
          adjusted_size = min adjusted_size (available * (95 / 100));
          max_position_with_leverage = available * max_leverage rm;
          adjusted_size = min adjusted_size max_position_with_leverage
      in adjusted_size)"




definition reset_daily_stats :: "RiskManager \<Rightarrow> RiskManager" where
  "reset_daily_stats rm =
     rm\<lparr>daily_start_balance := current_balance rm,
        daily_pnl := 0,
        trades_today := 0,
        risk_alerts := []\<rparr>"

definition enable_trading :: "RiskManager \<Rightarrow> RiskManager" where
  "enable_trading rm = rm\<lparr>trading_enabled := True\<rparr>"

definition disable_trading :: "RiskManager \<Rightarrow> RiskManager" where
  "disable_trading rm = rm\<lparr>trading_enabled := False\<rparr>"

section \<open>ConfigLoader (live\_trading/config/config\_loader.py)\<close>

text \<open>
  The configuration is what \<^verbatim>\<open>json.load\<close> returns: a JSON value.  A JSON object
  is its list of members, read with \<^const>\<open>map_of\<close>.  Python's bool is a number
  (\<^verbatim>\<open>True == 1\<close>); ordering a string, null, object or array against a number raises
  TypeError; \<^verbatim>\<open>.get\<close> on a value that is not a dict and \<^verbatim>\<open>.lower()\<close> on a
  value that is not a string raise AttributeError.
\<close>

datatype jvalue =
  JNum real | JStr string | JBool bool | JNull
  | JObj "(string \<times> jvalue) list" | JArr "jvalue list"

definition bind_err :: "py_error + 'a \<Rightarrow> ('a \<Rightarrow> py_error + 'b) \<Rightarrow> py_error + 'b" where
  "bind_err r f = (case r of Inl e \<Rightarrow> Inl e | Inr v \<Rightarrow> f v)"

definition dict_get :: "jvalue \<Rightarrow> string \<Rightarrow> jvalue \<Rightarrow> py_error + jvalue" where
  "dict_get d k dflt =
     (case d of
        JObj kvs \<Rightarrow> Inr (case map_of kvs k of None \<Rightarrow> dflt | Some v \<Rightarrow> v)
      | _ \<Rightarrow> Inl AttributeError)"

definition as_number :: "jvalue \<Rightarrow> py_error + real" where
  "as_number v =
     (case v of
        JNum r \<Rightarrow> Inr r
      | JBool b \<Rightarrow> Inr (if b then 1 else 0)
      | _ \<Rightarrow> Inl TypeError)"

definition get_number :: "jvalue \<Rightarrow> string \<Rightarrow> real \<Rightarrow> py_error + real" where
  "get_number d k dflt = bind_err (dict_get d k (JNum dflt)) as_number"

definition lower_char :: "char \<Rightarrow> char" where
  "lower_char c =
     (let n = (of_char c :: nat) in if 65 \<le> n \<and> n \<le> 90 then char_of (n + 32) else c)"

definition get_lower :: "jvalue \<Rightarrow> string \<Rightarrow> string \<Rightarrow> py_error + string" where
  "get_lower d k dflt =
     bind_err (dict_get d k (JStr dflt))
       (\<lambda>v. case v of JStr s \<Rightarrow> Inr (map lower_char s) | _ \<Rightarrow> Inl AttributeError)"

definition required_sections :: "string list" where
  "required_sections =
     [''trading'', ''strategy'', ''risk_management'', ''position_management'',
      ''execution'', ''exchange'', ''data_feed'', ''logging'', ''monitoring'']"

definition section_of :: "(string \<times> jvalue) list \<Rightarrow> string \<Rightarrow> py_error + jvalue" where
  "section_of config_data k =
     (case map_of config_data k of None \<Rightarrow> Inl KeyError | Some v \<Rightarrow> Inr v)"

text \<open>
  \<^verbatim>\<open>_validate_config\<close>, check by check in the order of the source.  Every
  \<^verbatim>\<open>raise ValueError(...)\<close> is \<open>Inl ValueError\<close>; the messages are not modelled.
\<close>

definition validate_config :: "(string \<times> jvalue) list \<Rightarrow> py_error + unit" where
  "validate_config config_data =
     (if \<not> list_all (\<lambda>s. map_of config_data s \<noteq> None) required_sections
      then Inl ValueError
      else
       bind_err (section_of config_data ''trading'') (\<lambda>trading_config.
       bind_err (get_number trading_config ''initial_balance'' 0) (\<lambda>initial_balance.
       if initial_balance \<le> 0 then Inl ValueError else
       bind_err (get_number trading_config ''max_position_percentage'' 0) (\<lambda>trading_mpp.
       if \<not> (0 < trading_mpp \<and> trading_mpp \<le> 1) then Inl ValueError else
       bind_err (section_of config_data ''strategy'') (\<lambda>strategy_config.
       bind_err (get_number strategy_config ''fast_ema_period'' 0) (\<lambda>fast_ema_period.
       if fast_ema_period \<le> 0 then Inl ValueError else
       bind_err (get_number strategy_config ''slow_ema_period'' 0) (\<lambda>slow_ema_period.
       bind_err (get_number strategy_config ''fast_ema_period'' 0) (\<lambda>fast_ema_period.
       if slow_ema_period \<le> fast_ema_period then Inl ValueError else
       bind_err (section_of config_data ''risk_management'') (\<lambda>risk_config.
       bind_err (get_number risk_config ''max_position_percentage'' 0) (\<lambda>risk_mpp.
       if \<not> (0 < risk_mpp \<and> risk_mpp \<le> 1) then Inl ValueError else
       bind_err (get_number risk_config ''max_daily_loss_percentage'' 0) (\<lambda>risk_mdl.
       if \<not> (0 < risk_mdl \<and> risk_mdl \<le> 1) then Inl ValueError else
       bind_err (get_number risk_config ''stop_loss_percentage'' 0) (\<lambda>risk_sl.
       if \<not> (0 < risk_sl \<and> risk_sl \<le> 1) then Inl ValueError else
       bind_err (section_of config_data ''exchange'') (\<lambda>exchange_config.
       bind_err (get_lower exchange_config ''name'' '''') (\<lambda>name.
       if name \<notin> set [''binance'', ''mock''] then Inl ValueError
       else Inr ()))))))))))))))"

text \<open>
  \<^verbatim>\<open>load_config\<close> after the file has been read and parsed: the data are validated,
  then the configuration objects are built.  \<^verbatim>\<open>_create_config_objects\<close> calls the
  dataclass constructors and is a parameter here; it runs only on validated data.
\<close>

definition load_config ::
  "((string \<times> jvalue) list \<Rightarrow> py_error + 'cfg) \<Rightarrow> (string \<times> jvalue) list \<Rightarrow> py_error + 'cfg" where
  "load_config create_config_objects config_data =
     bind_err (validate_config config_data) (\<lambda>_. create_config_objects config_data)"

text \<open>
  A number of the configuration as \<^verbatim>\<open>_validate_config\<close> reads it (a missing key
  reads as 0), and the range \<open>(0,1]\<close> of a percentage.
\<close>

definition config_number :: "(string \<times> jvalue) list \<Rightarrow> string \<Rightarrow> string \<Rightarrow> py_error + real" where
  "config_number config_data sect k =
     bind_err (section_of config_data sect) (\<lambda>d. get_number d k 0)"

definition in_unit_interval :: "py_error + real \<Rightarrow> bool" where
  "in_unit_interval r = (case r of Inl _ \<Rightarrow> False | Inr x \<Rightarrow> 0 < x \<and> x \<le> 1)"

text \<open>The data that \<^verbatim>\<open>create_default_config\<close> writes.\<close>

definition default_config :: "(string \<times> jvalue) list" where
  "default_config =
     [(''trading'', JObj
        [(''symbol'', JStr ''BTCUSDT''), (''simulation_mode'', JBool True),
         (''initial_balance'', JNum 10000), (''max_position_percentage'', JNum (95 / 100)),
         (''leverage'', JNum 1)]),
      (''strategy'', JObj
        [(''name'', JStr ''SimpleEMAStrategy''), (''fast_ema_period'', JNum 12),
         (''slow_ema_period'', JNum 26), (''signal_strength_threshold'', JNum (5 / 10)),
         (''min_signal_strength'', JNum (3 / 10)), (''max_signal_strength'', JNum 1)]),
      (''risk_management'', JObj
        [(''max_position_percentage'', JNum (95 / 100)),
         (''max_daily_loss_percentage'', JNum (5 / 100)),
         (''max_drawdown_percentage'', JNum (10 / 100)),
         (''stop_loss_percentage'', JNum (2 / 100)),
         (''take_profit_percentage'', JNum (6 / 100)),
         (''min_position_size'', JNum 10), (''max_leverage'', JNum 20),
         (''max_trades_per_day'', JNum 50)]),
      (''position_management'', JObj
        [(''max_positions'', JNum 5), (''position_timeout'', JNum 3600)]),
      (''execution'', JObj
        [(''max_retry_count'', JNum 3), (''retry_delay'', JNum 1),
         (''order_timeout'', JNum 30), (''slippage_tolerance'', JNum (1 / 1000)),
         (''simulation_mode'', JBool True), (''simulation_latency'', JNum (1 / 10)),
         (''simulation_slippage'', JNum (5 / 10000))]),
      (''exchange'', JObj
        [(''name'', JStr ''mock''), (''api_key'', JStr ''''), (''api_secret'', JStr ''''),
         (''testnet'', JBool True), (''initial_balance'', JNum 10000)]),
      (''data_feed'', JObj
        [(''source'', JStr ''mock''), (''update_interval'', JNum 1),
         (''websocket_url'', JStr ''''), (''rest_api_url'', JStr ''''),
         (''mock_volatility'', JNum (2 / 100)), (''mock_trend'', JNum 0)]),
      (''logging'', JObj
        [(''level'', JStr ''INFO''), (''log_to_file'', JBool True),
         (''log_directory'', JStr ''live_trading/logs''), (''max_log_files'', JNum 10),
         (''max_log_size_mb'', JNum 50)]),
      (''monitoring'', JObj
        [(''enable_web_interface'', JBool True), (''web_port'', JNum 8080),
         (''update_interval'', JNum 5), (''save_state_interval'', JNum 60)])]"

text \<open>
  The default data with the two percentages that \<^verbatim>\<open>_validate_config\<close> does not
  read set outside \<open>(0,1]\<close>: a maximum drawdown of 5 and a take profit of -1.
\<close>

definition config_bad_drawdown :: "(string \<times> jvalue) list" where
  "config_bad_drawdown =
     map (\<lambda>(k, v). if k = ''risk_management'' then (k, JObj
        [(''max_position_percentage'', JNum (95 / 100)),
         (''max_daily_loss_percentage'', JNum (5 / 100)),
         (''max_drawdown_percentage'', JNum 5),
         (''stop_loss_percentage'', JNum (2 / 100)),
         (''take_profit_percentage'', JNum (- 1)),
         (''min_position_size'', JNum 10), (''max_leverage'', JNum 20),
         (''max_trades_per_day'', JNum 50)]) else (k, v)) default_config"

section \<open>OrderExecutor (live\_trading/execution/order\_executor.py)\<close>

text \<open>
  Modelled from the spec: the dataclass Order of the missing \<^verbatim>\<open>trade_models.py\<close>,
  with the fields that \<^verbatim>\<open>_create_order_from_signal\<close> passes to its constructor and
  that \<^verbatim>\<open>execute_order\<close> assigns.  The fields \<^verbatim>\<open>symbol\<close>, \<^verbatim>\<open>side\<close>,
  \<^verbatim>\<open>type\<close> and \<^verbatim>\<open>timestamp\<close> carry the prefix \<open>order_\<close> here.
\<close>

record Order =
  order_id :: string
  order_symbol :: string
  order_side :: OrderSide
  order_type :: OrderType
  quantity :: real
  price :: real
  status :: OrderStatus
  order_timestamp :: datetime
  filled_price :: real
  filled_quantity :: real
  commission :: real
  filled_time :: "datetime option"

text \<open>
  ExecutionResult is declared in \<^verbatim>\<open>order_executor.py\<close>; its fields
  \<^verbatim>\<open>order_id\<close>, \<^verbatim>\<open>filled_price\<close>, \<^verbatim>\<open>filled_quantity\<close>,
  \<^verbatim>\<open>commission\<close> and \<^verbatim>\<open>timestamp\<close> carry the prefix \<open>result_\<close> here.  The
  error messages are Chinese texts in the source and English ones here.
\<close>

record ExecutionResult =
  success :: bool
  result_order_id :: string
  result_filled_price :: real
  result_filled_quantity :: real
  result_commission :: real
  error_message :: string
  result_timestamp :: datetime

text \<open>
  An Order is a mutable object: \<^verbatim>\<open>execute_order\<close> puts the object it is given into
  \<^verbatim>\<open>pending_orders\<close> and into \<^verbatim>\<open>completed_orders\<close> or \<^verbatim>\<open>failed_orders\<close>
  and assigns its status through any of these references.  The executor's state therefore
  holds references into a store of Order objects (\<open>heap\<close>).
\<close>

type_synonym ref = nat

record OrderExecutor =
  max_retry_count :: int
  simulation_mode :: bool
  simulation_slippage :: real
  heap :: "ref \<Rightarrow> Order"
  pending_orders :: "string \<rightharpoonup> ref"
  completed_orders :: "ref list"
  failed_orders :: "ref list"

text \<open>
  The two callbacks of \<^verbatim>\<open>set_callbacks\<close>; either may be None.  A callback receives
  the order and the result and may do anything to the executor and to the orders;
  \<^verbatim>\<open>_safe_callback\<close> swallows what it raises, so a callback is a function on states.
\<close>

record callbacks =
  order_filled_callback :: "(ref \<Rightarrow> ExecutionResult \<Rightarrow> OrderExecutor \<Rightarrow> OrderExecutor) option"
  order_failed_callback :: "(ref \<Rightarrow> ExecutionResult \<Rightarrow> OrderExecutor \<Rightarrow> OrderExecutor) option"

definition safe_callback ::
  "(ref \<Rightarrow> ExecutionResult \<Rightarrow> OrderExecutor \<Rightarrow> OrderExecutor) option
     \<Rightarrow> ref \<Rightarrow> ExecutionResult \<Rightarrow> OrderExecutor \<Rightarrow> OrderExecutor" where
  "safe_callback cb r res ex = (case cb of None \<Rightarrow> ex | Some f \<Rightarrow> f r res ex)"

text \<open>
  \<^verbatim>\<open>_execute_order_simulation\<close>; \<open>rnd\<close> is the number that
  \<^verbatim>\<open>random.random()\<close> returns.
\<close>

definition execute_order_simulation ::
  "OrderExecutor \<Rightarrow> Order \<Rightarrow> real \<Rightarrow> datetime \<Rightarrow> ExecutionResult" where
  "execute_order_simulation ex order rnd now =
     (let fill = (if order_side order = BUY
                  then price order * (1 + simulation_slippage ex)
                  else price order * (1 - simulation_slippage ex));
          fee = quantity order * fill * (1 / 1000)
      in if rnd < 95 / 100
         then \<lparr>success = True, result_order_id = order_id order,
               result_filled_price = fill, result_filled_quantity = quantity order,
               result_commission = fee, error_message = '''', result_timestamp = now\<rparr>
         else \<lparr>success = False, result_order_id = order_id order,
               result_filled_price = 0, result_filled_quantity = 0,
               result_commission = 0, error_message = ''simulated execution failed'',
               result_timestamp = now\<rparr>)"

text \<open>
  \<^verbatim>\<open>_execute_order_real\<close>: the first round of the retry loop returns the simulated
  result; with \<^verbatim>\<open>max_retry_count <= 0\<close> the loop body never runs and the function
  returns None.
\<close>

definition execute_order_real ::
  "OrderExecutor \<Rightarrow> Order \<Rightarrow> real \<Rightarrow> datetime \<Rightarrow> ExecutionResult option" where
  "execute_order_real ex order rnd now =
     (if 0 < max_retry_count ex then Some (execute_order_simulation ex order rnd now)
      else None)"

definition set_status :: "OrderExecutor \<Rightarrow> ref \<Rightarrow> OrderStatus \<Rightarrow> OrderExecutor" where
  "set_status ex r st = ex\<lparr>heap := (heap ex)(r := (heap ex r)\<lparr>status := st\<rparr>)\<rparr>"

definition remove_pending :: "OrderExecutor \<Rightarrow> string \<Rightarrow> OrderExecutor" where
  "remove_pending ex oid = ex\<lparr>pending_orders := (pending_orders ex)(oid := None)\<rparr>"

text \<open>
  \<^verbatim>\<open>execute_order\<close>, with the states the executor passes through: after the order
  is registered as pending; after the result is recorded (the state in which the callback
  is called); after the callback; after the order is removed from the pending map.  When
  \<^verbatim>\<open>result\<close> is None, \<^verbatim>\<open>result.success\<close> raises AttributeError and the
  \<^verbatim>\<open>except\<close> branch runs: the order fails, no callback is called.
\<close>

definition execute_order_run ::
  "callbacks \<Rightarrow> OrderExecutor \<Rightarrow> ref \<Rightarrow> real \<Rightarrow> datetime
     \<Rightarrow> ExecutionResult \<times> OrderExecutor list" where
  "execute_order_run cbs ex r rnd now =
     (let oid = order_id (heap ex r);
          ex1 = set_status (ex\<lparr>pending_orders := (pending_orders ex)(oid \<mapsto> r)\<rparr>) r PENDING;
          result =
            (if simulation_mode ex1
             then Some (execute_order_simulation ex1 (heap ex1 r) rnd now)
             else execute_order_real ex1 (heap ex1 r) rnd now)
      in case result of
           None \<Rightarrow>
             (let ex2 = set_status ex1 r FAILED;
                  ex3 = ex2\<lparr>failed_orders := failed_orders ex2 @ [r]\<rparr>;
                  ex4 = remove_pending ex3 (order_id (heap ex3 r))
              in (\<lparr>success = False, result_order_id = order_id (heap ex4 r),
                   result_filled_price = 0, result_filled_quantity = 0,
                   result_commission = 0,
                   error_message = ''NoneType object has no attribute success'',
                   result_timestamp = now\<rparr>,
                  [ex1, ex4]))
         | Some res \<Rightarrow>
             if success res then
               (let ex2 = ex1\<lparr>heap := (heap ex1)(r := (heap ex1 r)
                             \<lparr>status := FILLED,
                              filled_price := result_filled_price res,
                              filled_quantity := result_filled_quantity res,
                              commission := result_commission res,
                              filled_time := Some (result_timestamp res)\<rparr>)\<rparr>;
                    ex3 = ex2\<lparr>completed_orders := completed_orders ex2 @ [r]\<rparr>;
                    ex4 = safe_callback (order_filled_callback cbs) r res ex3;
                    ex5 = remove_pending ex4 (order_id (heap ex4 r))
                in (res, [ex1, ex3, ex4, ex5]))
             else
               (let ex2 = set_status ex1 r FAILED;
                    ex3 = ex2\<lparr>failed_orders := failed_orders ex2 @ [r]\<rparr>;
                    ex4 = safe_callback (order_failed_callback cbs) r res ex3;
                    ex5 = remove_pending ex4 (order_id (heap ex4 r))
                in (res, [ex1, ex3, ex4, ex5])))"

definition execute_order ::
  "callbacks \<Rightarrow> OrderExecutor \<Rightarrow> ref \<Rightarrow> real \<Rightarrow> datetime \<Rightarrow> ExecutionResult \<times> OrderExecutor" where
  "execute_order cbs ex r rnd now =
     (let run = execute_order_run cbs ex r rnd now in (fst run, last (snd run)))"

text \<open>\<^verbatim>\<open>cancel_order\<close> of the executor: no check of the order's status.\<close>

definition cancel_order :: "OrderExecutor \<Rightarrow> string \<Rightarrow> bool \<times> OrderExecutor" where
  "cancel_order ex oid =
     (case pending_orders ex oid of
        None \<Rightarrow> (False, ex)
      | Some r \<Rightarrow>
          if simulation_mode ex
          then (True, remove_pending (set_status ex r CANCELLED) oid)
          else (False, ex))"

text \<open>Where an order id is, as \<^verbatim>\<open>get_order_status\<close> looks it up.\<close>

definition in_pending :: "OrderExecutor \<Rightarrow> string \<Rightarrow> bool" where
  "in_pending ex oid = (pending_orders ex oid \<noteq> None)"

definition in_completed :: "OrderExecutor \<Rightarrow> string \<Rightarrow> bool" where
  "in_completed ex oid = (oid \<in> set (map (\<lambda>r. order_id (heap ex r)) (completed_orders ex)))"

definition in_failed :: "OrderExecutor \<Rightarrow> string \<Rightarrow> bool" where
  "in_failed ex oid = (oid \<in> set (map (\<lambda>r. order_id (heap ex r)) (failed_orders ex)))"

definition in_at_most_one :: "OrderExecutor \<Rightarrow> string \<Rightarrow> bool" where
  "in_at_most_one ex oid =
     (\<not> (in_pending ex oid \<and> in_completed ex oid)
      \<and> \<not> (in_pending ex oid \<and> in_failed ex oid)
      \<and> \<not> (in_completed ex oid \<and> in_failed ex oid))"

definition where_is :: "OrderExecutor \<Rightarrow> string \<Rightarrow> bool \<times> bool \<times> bool" where
  "where_is ex oid = (in_pending ex oid, in_completed ex oid, in_failed ex oid)"

definition is_terminal :: "OrderStatus \<Rightarrow> bool" where
  "is_terminal st = (st = FILLED \<or> st = FAILED \<or> st = CANCELLED)"

section \<open>MockExchangeConnector (live\_trading/execution/exchange\_connector.py)\<close>

text \<open>
  The mock connector creates its orders itself and keeps them in \<^verbatim>\<open>mock_orders\<close>;
  the model keeps the orders in the dictionary.  \<^verbatim>\<open>str_of_nat\<close> is Python's
  \<^verbatim>\<open>str\<close> on the order counter.
\<close>

fun str_of_nat :: "nat \<Rightarrow> string" where
  "str_of_nat n =
     (if n < 10 then [char_of (48 + n)]
      else str_of_nat (n div 10) @ [char_of (48 + n mod 10)])"

record MockExchangeConnector =
  mock_balance :: real
  mock_orders :: "string \<rightharpoonup> Order"
  order_counter :: nat

definition mock_create_order ::
  "MockExchangeConnector \<Rightarrow> string \<Rightarrow> OrderSide \<Rightarrow> OrderType \<Rightarrow> real \<Rightarrow> real option \<Rightarrow> datetime
     \<Rightarrow> Order \<times> MockExchangeConnector" where
  "mock_create_order c smb sd ty qty price_arg now =
     (let oid = ''MOCK_'' @ str_of_nat (order_counter c);
          price_or_0 = (case price_arg of None \<Rightarrow> 0 | Some p \<Rightarrow> p);
          order = \<lparr>order_id = oid, order_symbol = smb, order_side = sd, order_type = ty,
                   quantity = qty, price = price_or_0, status = PENDING,
                   order_timestamp = now, filled_price = 0, filled_quantity = 0,
                   commission = 0, filled_time = None\<rparr>;
          order' = (if ty = MARKET
                    then order\<lparr>status := FILLED, filled_price := price_or_0,
                               filled_quantity := qty,
                               commission := qty * price_or_0 * (1 / 1000)\<rparr>
                    else order)
      in (order', c\<lparr>order_counter := order_counter c + 1,
                     mock_orders := (mock_orders c)(oid \<mapsto> order')\<rparr>))"

definition mock_cancel_order ::
  "MockExchangeConnector \<Rightarrow> string \<Rightarrow> string \<Rightarrow> bool \<times> MockExchangeConnector" where
  "mock_cancel_order c smb oid =
     (case mock_orders c oid of
        None \<Rightarrow> (False, c)
      | Some order \<Rightarrow>
          if status order = PENDING
          then (True, c\<lparr>mock_orders := (mock_orders c)(oid \<mapsto> order\<lparr>status := CANCELLED\<rparr>)\<rparr>)
          else (False, c))"

section \<open>Concrete states\<close>

text \<open>States and inputs at which the theorems below are evaluated.\<close>

definition btc_long_1_at_100 :: Position where
  "btc_long_1_at_100 =
     \<lparr>symbol = ''BTCUSDT'', side = LONG, size_pos = 1, entry_price = 100,
      current_price = 100, unrealized_pnl = 0, realized_pnl = 0, margin = 1,
      percentage = 0, timestamp = 0, pos_order_id = None\<rparr>"

definition pm_btc_long :: PositionManager where
  "pm_btc_long = new_position_manager\<lparr>positions := [''BTCUSDT'' \<mapsto> btc_long_1_at_100]\<rparr>"

definition signal_buy :: "real \<Rightarrow> Signal" where
  "signal_buy s =
     \<lparr>signal_symbol = ''BTCUSDT'', action = ''BUY'', strength = s, signal_price = 100\<rparr>"

definition account_with :: "real \<Rightarrow> AccountInfo" where
  "account_with b =
     \<lparr>total_wallet_balance = b, available_balance = b, total_unrealized_pnl = 0,
      total_margin_balance = b\<rparr>"

text \<open>
  A risk manager whose balance fell from a peak of 10000 to 8000: a drawdown of 0.2 against
  a limit of 0.1, trading enabled, no trade and no loss booked today.
\<close>

definition rm_in_drawdown :: RiskManager where
  "rm_in_drawdown = update_account_info
     (update_account_info new_risk_manager (account_with 10000)) (account_with 8000)"

definition blank_order :: Order where
  "blank_order =
     \<lparr>order_id = '''', order_symbol = '''', order_side = BUY, order_type = MARKET,
      quantity = 0, price = 0, status = CREATED, order_timestamp = 0, filled_price = 0,
      filled_quantity = 0, commission = 0, filled_time = None\<rparr>"

definition order_buy_btc :: Order where
  "order_buy_btc = blank_order
     \<lparr>order_id := ''BTCUSDT_1'', order_symbol := ''BTCUSDT'', quantity := 1, price := 100\<rparr>"

definition order_sell_btc :: Order where
  "order_sell_btc = order_buy_btc\<lparr>order_id := ''BTCUSDT_2'', order_side := SELL\<rparr>"

text \<open>
  The executor as \<^verbatim>\<open>__init__\<close> builds it from an empty configuration, with one order
  object (reference 0) that \<^verbatim>\<open>_create_order_from_signal\<close> has just made.
\<close>

definition ex_one_order :: OrderExecutor where
  "ex_one_order =
     \<lparr>max_retry_count = 3, simulation_mode = True, simulation_slippage = 5 / 10000,
      heap = (\<lambda>_. blank_order)(0 := order_buy_btc),
      pending_orders = Map.empty, completed_orders = [], failed_orders = []\<rparr>"

text \<open>
  Callbacks that leave the executor alone, as \<^verbatim>\<open>_on_order_filled\<close> and
  \<^verbatim>\<open>_on_order_failed\<close> of \<^verbatim>\<open>main.py\<close> do, and a filled-callback that cancels the
  order it is told about.
\<close>

definition observing_callbacks :: callbacks where
  "observing_callbacks =
     \<lparr>order_filled_callback = Some (\<lambda>r res ex. ex),
      order_failed_callback = Some (\<lambda>r res ex. ex)\<rparr>"

definition cancelling_callbacks :: callbacks where
  "cancelling_callbacks =
     \<lparr>order_filled_callback = Some (\<lambda>r res ex. snd (cancel_order ex (order_id (heap ex r)))),
      order_failed_callback = None\<rparr>"

definition mock_with_filled_order :: MockExchangeConnector where
  "mock_with_filled_order =
     snd (mock_create_order
            \<lparr>mock_balance = 10000, mock_orders = Map.empty, order_counter = 1\<rparr>
            ''BTCUSDT'' BUY MARKET 1 (Some 100) 0)"

section \<open>Position manager: claims C3, C6, C8, C10\<close>

lemma close_position_live:
  assumes "positions pm smb = Some p" and "0 < size_pos p" and "entry_price p \<noteq> 0"
  shows "close_position pm smb reason cp now =
           (let close_price = (case cp of None \<Rightarrow> current_price p | Some c \<Rightarrow> c);
                pnl = (if side p = LONG then (close_price - entry_price p) * size_pos p
                       else (entry_price p - close_price) * size_pos p);
                closed = \<lparr>symbol = symbol p, side = side p, size_pos = size_pos p,
                          entry_price = entry_price p, current_price = close_price,
                          unrealized_pnl = 0, realized_pnl = pnl, margin = margin p,
                          percentage = (pnl / (entry_price p * size_pos p)) * 100,
                          timestamp = now, pos_order_id = pos_order_id p\<rparr>
            in (Inr (Some closed),
                pm\<lparr>position_history := position_history pm @ [closed],
                   positions := (positions pm)(smb := None)\<rparr>))"
  using assms by (simp add: close_position_def has_position_def Let_def)

text \<open>
  Claim C6.  For a stored position and an add whose size does not cancel the position's
  size, \<^verbatim>\<open>_add_to_position\<close> returns the position with size \<open>oldSize + addSize\<close> and
  entry price \<open>(oldEntry * oldSize + p * addSize) / (oldSize + addSize)\<close> and stores it
  under the symbol; \<^verbatim>\<open>open_position\<close> for a live position of the same side is this
  add.  (A new size of zero is the ZeroDivisionError of the source.)
\<close>

theorem add_to_position_weighted_average:
  assumes "positions pm smb = Some p" and "size_pos p + additional_size \<noteq> 0"
  shows "(let p' = p\<lparr>size_pos := size_pos p + additional_size,
                      entry_price := (entry_price p * size_pos p + px * additional_size)
                                       / (size_pos p + additional_size),
                      margin := margin p + additional_size,
                      timestamp := now\<rparr>
          in add_to_position pm smb additional_size px oid now =
               (Inr p', pm\<lparr>positions := (positions pm)(smb \<mapsto> p')\<rparr>)
             \<and> (0 < size_pos p \<longrightarrow>
                  open_position pm smb (side p) additional_size px oid now_close now =
                    (Inr p', pm\<lparr>positions := (positions pm)(smb \<mapsto> p')\<rparr>)))"
  using assms
  by (simp add: add_to_position_def open_position_def has_position_def Let_def mult.commute)

theorem add_to_position_weighted_average_witness:
  "positions pm_btc_long ''BTCUSDT'' = Some btc_long_1_at_100
   \<and> size_pos btc_long_1_at_100 + 1 \<noteq> 0
   \<and> open_position pm_btc_long ''BTCUSDT'' LONG 1 120 None 6 7 =
       (Inr (btc_long_1_at_100\<lparr>size_pos := 2, entry_price := 110, margin := 2, timestamp := 7\<rparr>),
        pm_btc_long\<lparr>positions := [''BTCUSDT'' \<mapsto>
          btc_long_1_at_100\<lparr>size_pos := 2, entry_price := 110, margin := 2, timestamp := 7\<rparr>]\<rparr>)"
  using add_to_position_weighted_average
    [where pm = pm_btc_long and smb = "''BTCUSDT''" and p = btc_long_1_at_100
       and additional_size = 1 and px = 120 and oid = None and now_close = 6 and now = 7]
  by (simp add: btc_long_1_at_100_def pm_btc_long_def new_position_manager_def Let_def)

text \<open>
  Claim C10.  For a symbol without a live position of positive size,
  \<^verbatim>\<open>close_position\<close> and \<^verbatim>\<open>reduce_position\<close> return None and leave the manager
  as it was: the position table, the history and every PnL figure in them.
\<close>

theorem close_reduce_without_position:
  assumes "\<not> has_position pm smb"
  shows "close_position pm smb reason close_price now = (Inr None, pm)
       \<and> reduce_position pm smb reduce_size px reason' now = (Inr None, pm)"
  using assms by (simp add: close_position_def reduce_position_def)

theorem close_reduce_without_position_witness:
  "\<not> has_position pm_btc_long ''ETHUSDT''
   \<and> close_position pm_btc_long ''ETHUSDT'' ''stop'' (Some 100) 3 = (Inr None, pm_btc_long)
   \<and> reduce_position pm_btc_long ''ETHUSDT'' 1 100 ''stop'' 3 = (Inr None, pm_btc_long)"
proof -
  have h: "\<not> has_position pm_btc_long ''ETHUSDT''"
    by (simp add: has_position_def pm_btc_long_def new_position_manager_def)
  from close_reduce_without_position [OF h] h show ?thesis by simp
qed

text \<open>
  Claim C3 as stated fails: \<^verbatim>\<open>open_position\<close> with the opposite side on a live LONG
  position of size 1 returns a SHORT position and leaves it in the table; the manager has
  closed the LONG position itself and put it into the history.
\<close>

theorem open_position_opposite_side_counterexample:
  "has_position pm_btc_long ''BTCUSDT''
   \<and> map_option side (positions pm_btc_long ''BTCUSDT'') = Some LONG
   \<and> map_option side
       (positions (snd (open_position pm_btc_long ''BTCUSDT'' SHORT 2 105 None 8 9)) ''BTCUSDT'')
       = Some SHORT
   \<and> has_position (snd (open_position pm_btc_long ''BTCUSDT'' SHORT 2 105 None 8 9)) ''BTCUSDT''
   \<and> map side (position_history (snd (open_position pm_btc_long ''BTCUSDT'' SHORT 2 105 None 8 9)))
       = [LONG]"
  by (simp add: open_position_def close_position_def has_position_def pm_btc_long_def
      btc_long_1_at_100_def new_position_manager_def Let_def)

text \<open>
  Claim C3, amended.  For a symbol holding a live position (positive size, entry price
  not zero), \<^verbatim>\<open>open_position\<close> with the opposite side flips the position itself: it
  closes the existing position at its current price, which realizes
  \<open>(currentPrice - entryPrice) * size\<close> for LONG (mirrored for SHORT), appends the closed
  record to the history and leaves the symbol flat, and then stores and returns the new
  position with the requested side, size and entry price.
\<close>

theorem open_position_opposite_side_flips:
  assumes "positions pm smb = Some p" and "0 < size_pos p" and "entry_price p \<noteq> 0"
    and "side p \<noteq> sd"
  shows "(let pnl = (if side p = LONG
                     then (current_price p - entry_price p) * size_pos p
                     else (entry_price p - current_price p) * size_pos p);
              closed_position =
                \<lparr>symbol = symbol p, side = side p, size_pos = size_pos p,
                 entry_price = entry_price p, current_price = current_price p,
                 unrealized_pnl = 0, realized_pnl = pnl, margin = margin p,
                 percentage = (pnl / (entry_price p * size_pos p)) * 100,
                 timestamp = now_close, pos_order_id = pos_order_id p\<rparr>;
              flat = pm\<lparr>position_history := position_history pm @ [closed_position],
                       positions := (positions pm)(smb := None)\<rparr>;
              position = \<lparr>symbol = smb, side = sd, size_pos = sz, entry_price = entry,
                          current_price = entry, unrealized_pnl = 0, realized_pnl = 0,
                          margin = sz, percentage = 0, timestamp = now, pos_order_id = oid\<rparr>
          in close_position pm smb ''opposite side, close'' None now_close =
               (Inr (Some closed_position), flat)
             \<and> \<not> has_position flat smb
             \<and> open_position pm smb sd sz entry oid now_close now =
                 (Inr position,
                  pm\<lparr>position_history := position_history pm @ [closed_position],
                     positions := (positions pm)(smb \<mapsto> position)\<rparr>))"
  using assms
  by (simp add: open_position_def has_position_def close_position_live Let_def)

theorem open_position_opposite_side_flips_witness:
  "positions pm_btc_long ''BTCUSDT'' = Some btc_long_1_at_100
   \<and> 0 < size_pos btc_long_1_at_100 \<and> entry_price btc_long_1_at_100 \<noteq> 0
   \<and> side btc_long_1_at_100 \<noteq> SHORT
   \<and> open_position (pm_btc_long\<lparr>positions :=
                        [''BTCUSDT'' \<mapsto> btc_long_1_at_100\<lparr>current_price := 103\<rparr>]\<rparr>)
         ''BTCUSDT'' SHORT 2 105 None 8 9 =
       (Inr \<lparr>symbol = ''BTCUSDT'', side = SHORT, size_pos = 2, entry_price = 105,
             current_price = 105, unrealized_pnl = 0, realized_pnl = 0,
             margin = 2, percentage = 0, timestamp = 9, pos_order_id = None\<rparr>,
        \<lparr>positions =
           [''BTCUSDT'' \<mapsto>
              \<lparr>symbol = ''BTCUSDT'', side = SHORT, size_pos = 2, entry_price = 105,
               current_price = 105, unrealized_pnl = 0, realized_pnl = 0,
               margin = 2, percentage = 0, timestamp = 9, pos_order_id = None\<rparr>],
         position_history =
           [\<lparr>symbol = ''BTCUSDT'', side = LONG, size_pos = 1, entry_price = 100,
             current_price = 103, unrealized_pnl = 0, realized_pnl = 3,
             margin = 1, percentage = 3, timestamp = 8, pos_order_id = None\<rparr>],
         max_positions = 5, position_timeout = 3600\<rparr>)"
  using open_position_opposite_side_flips
    [where pm = "pm_btc_long\<lparr>positions :=
                   [''BTCUSDT'' \<mapsto> btc_long_1_at_100\<lparr>current_price := 103\<rparr>]\<rparr>"
       and smb = "''BTCUSDT''" and p = "btc_long_1_at_100\<lparr>current_price := 103\<rparr>"
       and sd = SHORT and sz = 2 and entry = 105 and oid = None and now_close = 8 and now = 9]
  by (simp add: btc_long_1_at_100_def pm_btc_long_def new_position_manager_def Let_def)

text \<open>
  Claim C8 as stated fails where it promises \<open>realized_pnl = - commission\<close>: the
  position manager takes no commission.  The executor's simulated fill of the closing
  order (SELL 1 at 100) charges a commission of 0.09995, and the round trip open LONG 1
  at 100, close at 100 still realizes 0.
\<close>

theorem close_position_commission_counterexample:
  "result_commission (execute_order_simulation ex_one_order order_sell_btc (1 / 2) 0)
     = 1999 / 20000
   \<and> map realized_pnl
       (position_history
          (snd (close_position
                  (snd (open_position new_position_manager ''BTCUSDT'' LONG 1 100 None 0 0))
                  ''BTCUSDT'' ''close'' (Some 100) 1)))
     = [0]"
  by (simp add: execute_order_simulation_def ex_one_order_def order_sell_btc_def
      order_buy_btc_def blank_order_def open_position_def close_position_def
      has_position_def new_position_manager_def Let_def)

text \<open>
  Claim C8, amended.  \<^verbatim>\<open>close_position\<close> on a live position with an entry price
  other than zero realizes \<open>(exitPrice - entryPrice) * size\<close> for LONG and
  \<open>(entryPrice - exitPrice) * size\<close> for SHORT, with no commission taken off; it appends
  the cpos record to the history and deletes the symbol from the live table.  So opening
  a position on a flat symbol and closing it at its entry price realizes 0, whatever the
  side, the size and the commission of the orders.
\<close>

theorem close_position_realizes_pnl:
  assumes "positions pm smb = Some p" and "0 < size_pos p" and "entry_price p \<noteq> 0"
  shows "(case close_position pm smb reason (Some exit_price) now of
            (Inr (Some cpos), pm') \<Rightarrow>
               realized_pnl cpos =
                 (if side p = LONG then (exit_price - entry_price p) * size_pos p
                  else (entry_price p - exit_price) * size_pos p)
               \<and> size_pos cpos = size_pos p \<and> side cpos = side p
               \<and> position_history pm' = position_history pm @ [cpos]
               \<and> positions pm' = (positions pm)(smb := None)
               \<and> \<not> has_position pm' smb
          | _ \<Rightarrow> False)
       \<and> (case close_position
                  (snd (open_position (pm\<lparr>positions := (positions pm)(smb := None)\<rparr>)
                          smb sd (size_pos p) (entry_price p) oid now_close now))
                  smb reason (Some (entry_price p)) now of
            (Inr (Some cpos), pm') \<Rightarrow>
               realized_pnl cpos = 0 \<and> positions pm' smb = None
          | _ \<Rightarrow> False)"
  using assms
  by (simp add: close_position_live Let_def has_position_def open_position_def)

theorem close_position_realizes_pnl_witness:
  "positions pm_btc_long ''BTCUSDT'' = Some btc_long_1_at_100
   \<and> 0 < size_pos btc_long_1_at_100 \<and> entry_price btc_long_1_at_100 \<noteq> 0
   \<and> map realized_pnl
       (position_history (snd (close_position pm_btc_long ''BTCUSDT'' ''close'' (Some 103) 1)))
     = [3]
   \<and> positions (snd (close_position pm_btc_long ''BTCUSDT'' ''close'' (Some 103) 1)) ''BTCUSDT''
     = None"
proof -
  have a: "positions pm_btc_long ''BTCUSDT'' = Some btc_long_1_at_100"
    by (simp add: pm_btc_long_def)
  have b: "0 < size_pos btc_long_1_at_100" and c: "entry_price btc_long_1_at_100 \<noteq> 0"
    by (simp_all add: btc_long_1_at_100_def)
  have d: "side btc_long_1_at_100 = LONG" "size_pos btc_long_1_at_100 = 1"
    "entry_price btc_long_1_at_100 = 100"
    by (simp_all add: btc_long_1_at_100_def)
  have e: "position_history pm_btc_long = []"
    by (simp add: pm_btc_long_def new_position_manager_def)
  from close_position_realizes_pnl [OF a b c, where reason = "''close''" and exit_price = 103 and now = 1]
  have "case close_position pm_btc_long ''BTCUSDT'' ''close'' (Some 103) 1 of
          (Inr (Some cpos), pm') \<Rightarrow>
             realized_pnl cpos = 3 \<and> position_history pm' = [cpos]
             \<and> positions pm' ''BTCUSDT'' = None
        | _ \<Rightarrow> False"
    by (auto simp: d e split: prod.splits sum.splits option.splits)
  then show ?thesis using a b c
    by (auto split: prod.splits sum.splits option.splits)
qed

section \<open>Risk manager: claims C4, C5, C7\<close>

lemma rm_in_drawdown_fields:
  "current_drawdown rm_in_drawdown = 2 / 10"
  "max_drawdown_percentage rm_in_drawdown = 1 / 10"
  "trading_enabled rm_in_drawdown"
  "trades_today rm_in_drawdown = 0"
  "max_trades_per_day rm_in_drawdown = 50"
  "daily_pnl rm_in_drawdown = 0"
  by (simp_all add: rm_in_drawdown_def update_account_info_def check_risk_limits_def
      new_risk_manager_def account_with_def Let_def)

text \<open>
  Claim C4 as stated fails in its last part: after \<^verbatim>\<open>reset_daily_stats()\<close> and a
  re-enable, a manager whose drawdown is 0.2 against a limit of 0.1 (trading enabled, no
  trade and no loss today) still rejects the signal.
\<close>

theorem validate_signal_after_reset_counterexample:
  "current_drawdown rm_in_drawdown = 2 / 10
   \<and> max_drawdown_percentage rm_in_drawdown = 1 / 10
   \<and> validate_signal rm_in_drawdown (signal_buy 1) (account_with 8000) None = False
   \<and> validate_signal (reset_daily_stats rm_in_drawdown)
        (signal_buy 1) (account_with 8000) None = False
   \<and> validate_signal (enable_trading (reset_daily_stats rm_in_drawdown))
        (signal_buy 1) (account_with 8000) None = False"
  by (simp add: rm_in_drawdown_fields validate_signal_def reset_daily_stats_def
      enable_trading_def)

text \<open>
  Claim C4, amended.  In every state where the current drawdown exceeds
  \<^verbatim>\<open>max_drawdown_percentage\<close>, \<^verbatim>\<open>validate_signal\<close> returns false for every signal,
  and it still returns false after \<^verbatim>\<open>reset_daily_stats()\<close> and after
  \<^verbatim>\<open>enable_trading()\<close>: neither changes the current drawdown.
\<close>

theorem validate_signal_drawdown_blocks:
  assumes "current_drawdown rm > max_drawdown_percentage rm"
  shows "\<not> validate_signal rm sg acct pos
       \<and> \<not> validate_signal (reset_daily_stats rm) sg acct pos
       \<and> \<not> validate_signal (enable_trading rm) sg acct pos
       \<and> \<not> validate_signal (enable_trading (reset_daily_stats rm)) sg acct pos
       \<and> current_drawdown (reset_daily_stats rm) = current_drawdown rm
       \<and> current_drawdown (enable_trading rm) = current_drawdown rm"
  using assms
  by (simp add: validate_signal_def reset_daily_stats_def enable_trading_def)

theorem validate_signal_drawdown_blocks_witness:
  "current_drawdown rm_in_drawdown > max_drawdown_percentage rm_in_drawdown
   \<and> \<not> validate_signal (reset_daily_stats rm_in_drawdown) (signal_buy 1) (account_with 8000) None"
proof -
  have h: "current_drawdown rm_in_drawdown > max_drawdown_percentage rm_in_drawdown"
    by (simp add: rm_in_drawdown_fields)
  from validate_signal_drawdown_blocks [OF h] h show ?thesis by simp
qed

text \<open>
  Claim C5 as stated fails at its lower bound: with an available balance of 5 and the
  default limits (\<^verbatim>\<open>min_position_size\<close> 10), the size returned for a signal of
  strength 1 is 4.75, below \<^verbatim>\<open>min_position_size\<close>.
\<close>

theorem calculate_position_size_counterexample:
  "calculate_position_size new_risk_manager (signal_buy 1) (account_with 5) = 19 / 4
   \<and> min_position_size new_risk_manager = 10"
  by (simp add: calculate_position_size_def new_risk_manager_def signal_buy_def
      account_with_def Let_def)

text \<open>
  Claim C5, amended.  \<^verbatim>\<open>calculate_position_size\<close> raises
  \<open>available_balance * max_position_percentage * strength\<close> to at least
  \<^verbatim>\<open>min_position_size\<close> and then caps it at \<open>available_balance * 0.95\<close> and at
  \<open>available_balance * max_leverage\<close>: the result never exceeds either cap, and it is
  at least \<^verbatim>\<open>min_position_size\<close> when \<^verbatim>\<open>min_position_size\<close> is itself within both
  caps.  With available balance 10000, \<^verbatim>\<open>max_position_percentage\<close> 0.95,
  \<^verbatim>\<open>max_leverage\<close> 20, strength 0.5 and \<^verbatim>\<open>min_position_size\<close> at most 4750 the
  result is 4750.
\<close>

theorem calculate_position_size_clamped:
  "calculate_position_size rm sg acct =
     min (min (max (available_balance acct * max_position_percentage rm * strength sg)
                   (min_position_size rm))
              (available_balance acct * (95 / 100)))
         (available_balance acct * max_leverage rm)
   \<and> calculate_position_size rm sg acct \<le> available_balance acct * (95 / 100)
   \<and> calculate_position_size rm sg acct \<le> available_balance acct * max_leverage rm
   \<and> (min_position_size rm \<le> available_balance acct * (95 / 100)
        \<and> min_position_size rm \<le> available_balance acct * max_leverage rm
      \<longrightarrow> min_position_size rm \<le> calculate_position_size rm sg acct)
   \<and> (available_balance acct = 10000 \<and> max_position_percentage rm = 95 / 100
        \<and> max_leverage rm = 20 \<and> strength sg = 1 / 2 \<and> min_position_size rm \<le> 4750
      \<longrightarrow> calculate_position_size rm sg acct = 4750)"
proof -
  have bounds: "calculate_position_size rm sg acct =
     min (min (max (available_balance acct * max_position_percentage rm * strength sg)
                   (min_position_size rm))
              (available_balance acct * (95 / 100)))
         (available_balance acct * max_leverage rm)
   \<and> calculate_position_size rm sg acct \<le> available_balance acct * (95 / 100)
   \<and> calculate_position_size rm sg acct \<le> available_balance acct * max_leverage rm
   \<and> (min_position_size rm \<le> available_balance acct * (95 / 100)
        \<and> min_position_size rm \<le> available_balance acct * max_leverage rm
      \<longrightarrow> min_position_size rm \<le> calculate_position_size rm sg acct)"
    by (auto simp add: calculate_position_size_def Let_def)
  have example: "calculate_position_size rm sg acct = 4750"
    if a: "available_balance acct = 10000" and b: "max_position_percentage rm = 95 / 100"
      and c: "max_leverage rm = 20" and d: "strength sg = 1 / 2"
      and e: "min_position_size rm \<le> 4750"
  proof -
    have raw: "available_balance acct * max_position_percentage rm * strength sg = 4750"
      by (simp add: a b d)
    show ?thesis
      unfolding calculate_position_size_def Let_def raw
      using e by (simp add: a c)
  qed
  from bounds example show ?thesis by blast
qed

theorem calculate_position_size_clamped_witness:
  "min_position_size new_risk_manager \<le> available_balance (account_with 10000) * (95 / 100)
   \<and> min_position_size new_risk_manager
        \<le> available_balance (account_with 10000) * max_leverage new_risk_manager
   \<and> min_position_size new_risk_manager \<le> 4750
   \<and> calculate_position_size new_risk_manager (signal_buy (1 / 2)) (account_with 10000) = 4750"
  using calculate_position_size_clamped
    [where rm = new_risk_manager and sg = "signal_buy (1 / 2)" and acct = "account_with 10000"]
  by (simp add: new_risk_manager_def signal_buy_def account_with_def)






section \<open>Configuration loader: claim C9\<close>

lemma bind_err_Inr:
  "bind_err r f = Inr v \<Longrightarrow> \<exists>x. r = Inr x \<and> f x = Inr v"
  by (cases r) (simp_all add: bind_err_def)

lemma default_config_valid: "validate_config default_config = Inr ()"
  by (simp add: validate_config_def default_config_def required_sections_def
      section_of_def get_number_def get_lower_def dict_get_def as_number_def bind_err_def
      lower_char_def Let_def)

lemma bad_config_valid: "validate_config config_bad_drawdown = Inr ()"
  by (simp add: validate_config_def config_bad_drawdown_def default_config_def
      required_sections_def section_of_def get_number_def get_lower_def dict_get_def
      as_number_def bind_err_def lower_char_def Let_def)

lemma validate_config_percentages:
  assumes "validate_config config_data = Inr ()"
  shows "in_unit_interval (config_number config_data ''trading'' ''max_position_percentage'')
       \<and> in_unit_interval
           (config_number config_data ''risk_management'' ''max_position_percentage'')
       \<and> in_unit_interval
           (config_number config_data ''risk_management'' ''max_daily_loss_percentage'')
       \<and> in_unit_interval
           (config_number config_data ''risk_management'' ''stop_loss_percentage'')"
  using assms unfolding validate_config_def config_number_def in_unit_interval_def
  by (auto simp add: bind_err_def split: if_splits sum.splits)

text \<open>
  Claim C9 as stated fails: the default configuration with
  \<^verbatim>\<open>max_drawdown_percentage\<close> set to 5 and \<^verbatim>\<open>take_profit_percentage\<close> set to -1
  passes \<^verbatim>\<open>_validate_config\<close> and is loaded.
\<close>

theorem load_config_unvalidated_counterexample:
  "load_config Inr config_bad_drawdown = Inr config_bad_drawdown
   \<and> config_number config_bad_drawdown ''risk_management'' ''max_drawdown_percentage'' = Inr 5
   \<and> config_number config_bad_drawdown ''risk_management'' ''take_profit_percentage''
       = Inr (- 1)"
  by (simp add: load_config_def bad_config_valid)
     (simp add: config_number_def config_bad_drawdown_def default_config_def section_of_def
        get_number_def dict_get_def as_number_def bind_err_def)

text \<open>
  Claim C9, amended.  Loading a configuration succeeds only if
  \<^verbatim>\<open>trading.max_position_percentage\<close>, \<^verbatim>\<open>risk_management.max_position_percentage\<close>,
  \<^verbatim>\<open>risk_management.max_daily_loss_percentage\<close> and
  \<^verbatim>\<open>risk_management.stop_loss_percentage\<close> are numbers in \<open>(0,1]\<close> (a missing one
  counts as 0); when one of them is not, \<^verbatim>\<open>load_config\<close> raises before the
  configuration objects are built.  \<^verbatim>\<open>max_drawdown_percentage\<close> and
  \<^verbatim>\<open>take_profit_percentage\<close> are not validated.
\<close>

theorem load_config_validates_percentages:
  assumes "load_config create_config_objects config_data = Inr cfg"
  shows "validate_config config_data = Inr ()
       \<and> in_unit_interval (config_number config_data ''trading'' ''max_position_percentage'')
       \<and> in_unit_interval
           (config_number config_data ''risk_management'' ''max_position_percentage'')
       \<and> in_unit_interval
           (config_number config_data ''risk_management'' ''max_daily_loss_percentage'')
       \<and> in_unit_interval
           (config_number config_data ''risk_management'' ''stop_loss_percentage'')"
proof -
  from assms have valid: "validate_config config_data = Inr ()"
    by (auto simp add: load_config_def dest!: bind_err_Inr)
  with validate_config_percentages [OF valid] show ?thesis by simp
qed

theorem load_config_validates_percentages_witness:
  "load_config Inr default_config = Inr default_config
   \<and> in_unit_interval (config_number default_config ''trading'' ''max_position_percentage'')
   \<and> in_unit_interval
       (config_number default_config ''risk_management'' ''stop_loss_percentage'')"
proof -
  have h: "load_config Inr default_config = Inr default_config"
    by (simp add: load_config_def default_config_valid bind_err_def)
  from load_config_validates_percentages [OF h] h show ?thesis by simp
qed

section \<open>Order executor and mock connector: claims C1, C2\<close>

lemma ex_one_order_run:
  "map (\<lambda>s. where_is s ''BTCUSDT_1'')
     (snd (execute_order_run observing_callbacks ex_one_order 0 (1 / 2) 5))
   = [(True, False, False), (True, True, False), (True, True, False), (False, True, False)]"
  by (simp add: execute_order_run_def execute_order_simulation_def ex_one_order_def
      observing_callbacks_def safe_callback_def set_status_def remove_pending_def
      order_buy_btc_def blank_order_def where_is_def in_pending_def in_completed_def
      in_failed_def Let_def)

lemma order_id_if_same:
  "(if ra = r then order_id (heap ex r) else order_id (heap ex ra)) = order_id (heap ex ra)"
  by simp

lemmas order_id_if = if_distrib [where f = order_id]

lemma where_is_fresh:
  "where_is ex oid = (False, False, False) \<Longrightarrow>
     \<not> in_pending ex oid \<and> \<not> in_completed ex oid \<and> \<not> in_failed ex oid"
  by (simp add: where_is_def)

text \<open>
  Claim C1 as stated fails at the point where the callback runs: the order filled by the
  simulated execution is appended to the completed list before the callback is called and
  removed from the pending map after it, so the callback sees its id in both.
\<close>

theorem execute_order_callback_counterexample:
  "in_pending (snd (execute_order_run observing_callbacks ex_one_order 0 (1 / 2) 5) ! 1)
      ''BTCUSDT_1''
   \<and> in_completed (snd (execute_order_run observing_callbacks ex_one_order 0 (1 / 2) 5) ! 1)
      ''BTCUSDT_1''
   \<and> in_at_most_one (snd (execute_order_run observing_callbacks ex_one_order 0 (1 / 2) 5) ! 1)
      ''BTCUSDT_1'' = False"
  by (simp add: execute_order_run_def execute_order_simulation_def ex_one_order_def
      observing_callbacks_def safe_callback_def set_status_def remove_pending_def
      order_buy_btc_def blank_order_def in_at_most_one_def in_pending_def in_completed_def
      in_failed_def Let_def)

text \<open>
  Claim C1, amended.  For an order whose id is in none of the pending map, the completed
  list and the failed list when \<^verbatim>\<open>execute_order\<close> is called, and callbacks that leave
  the executor as it is: the id is in the pending map alone once the order is registered;
  from the moment the result is recorded until the callback has returned it is in the
  pending map and in the completed list (success) or in the pending map and in the failed
  list (failure); when \<^verbatim>\<open>execute_order\<close> returns it is in the completed list alone or
  in the failed list alone.  It is never in the completed and the failed list at once.
  The list below gives, for each state the executor passes through, whether the id is
  (pending, completed, failed).
\<close>

theorem execute_order_locations:
  assumes "where_is ex (order_id (heap ex r)) = (False, False, False)"
    and "\<forall>res s. safe_callback (order_filled_callback cbs) r res s = s"
    and "\<forall>res s. safe_callback (order_failed_callback cbs) r res s = s"
  shows "map (\<lambda>s. where_is s (order_id (heap ex r)))
           (snd (execute_order_run cbs ex r rnd now)) =
         (if \<not> simulation_mode ex \<and> max_retry_count ex \<le> 0
          then [(True, False, False), (False, False, True)]
          else if rnd < 95 / 100
          then [(True, False, False), (True, True, False), (True, True, False),
                (False, True, False)]
          else [(True, False, False), (True, False, True), (True, False, True),
                (False, False, True)])"
proof -
  note fresh = where_is_fresh [OF assms(1)]
  show ?thesis
    using fresh assms(2,3)
    by (simp add: execute_order_run_def execute_order_real_def execute_order_simulation_def
        Let_def where_is_def in_pending_def in_completed_def in_failed_def set_status_def
        remove_pending_def order_id_if order_id_if_same del: if_image_distrib
        cong: if_cong)
qed

theorem execute_order_locations_witness:
  "where_is ex_one_order (order_id (heap ex_one_order 0)) = (False, False, False)
   \<and> map (\<lambda>s. where_is s ''BTCUSDT_1'')
       (snd (execute_order_run observing_callbacks ex_one_order 0 (99 / 100) 5))
     = [(True, False, False), (True, False, True), (True, False, True), (False, False, True)]"
proof -
  have a: "where_is ex_one_order (order_id (heap ex_one_order 0)) = (False, False, False)"
    by (simp add: where_is_def in_pending_def in_completed_def in_failed_def ex_one_order_def)
  have b: "\<forall>res s. safe_callback (order_filled_callback observing_callbacks) 0 res s = s"
    and c: "\<forall>res s. safe_callback (order_failed_callback observing_callbacks) 0 res s = s"
    by (simp_all add: safe_callback_def observing_callbacks_def)
  have d: "order_id (heap ex_one_order 0) = ''BTCUSDT_1''" "simulation_mode ex_one_order"
    by (simp_all add: ex_one_order_def order_buy_btc_def blank_order_def)
  from execute_order_locations [OF a b c, where rnd = "99 / 100" and now = 5] a d
  show ?thesis by simp
qed

text \<open>
  Claim C2 as stated fails for \<^verbatim>\<open>OrderExecutor.cancel_order\<close>: it cancels whatever
  order is in the pending map without looking at its status.  A filled-callback that
  cancels the order it is told about finds the order FILLED and still pending, and leaves
  it CANCELLED in the completed list.
\<close>

theorem cancel_order_terminal_counterexample:
  "status (heap (snd (execute_order_run cancelling_callbacks ex_one_order 0 (1 / 2) 5) ! 1) 0)
     = FILLED
   \<and> is_terminal FILLED
   \<and> status (heap (snd (execute_order_run cancelling_callbacks ex_one_order 0 (1 / 2) 5) ! 2) 0)
     = CANCELLED
   \<and> status (heap (snd (execute_order cancelling_callbacks ex_one_order 0 (1 / 2) 5)) 0)
     = CANCELLED
   \<and> completed_orders (snd (execute_order cancelling_callbacks ex_one_order 0 (1 / 2) 5))
     = [0]"
  by (simp add: execute_order_def execute_order_run_def execute_order_simulation_def
      ex_one_order_def cancelling_callbacks_def safe_callback_def cancel_order_def
      set_status_def remove_pending_def order_buy_btc_def blank_order_def is_terminal_def
      Let_def)

text \<open>
  Claim C2, amended.  Once an order's status is terminal (FILLED, FAILED or CANCELLED),
  \<^verbatim>\<open>MockExchangeConnector.cancel_order\<close> never changes it, and
  \<^verbatim>\<open>OrderExecutor.cancel_order\<close> never changes an order that is not in the pending
  map.  \<^verbatim>\<open>OrderExecutor.cancel_order\<close> does not look at the status: in simulation mode
  an order that is in the pending map under the given id becomes CANCELLED whatever its
  status was; and \<^verbatim>\<open>execute_order\<close> first sets the order it is given to PENDING.
\<close>

theorem cancel_order_terminal_status:
  "(mock_orders c i = Some ord \<and> is_terminal (status ord)
      \<longrightarrow> mock_orders (snd (mock_cancel_order c smb oid)) i = Some ord)
   \<and> (is_terminal (status (heap ex r)) \<and> (\<forall>k. pending_orders ex k \<noteq> Some r)
      \<longrightarrow> heap (snd (cancel_order ex xid)) r = heap ex r)
   \<and> (pending_orders ex' oid' = Some r' \<and> simulation_mode ex'
      \<longrightarrow> status (heap (snd (cancel_order ex' oid')) r') = CANCELLED
          \<and> pending_orders (snd (cancel_order ex' oid')) oid' = None)
   \<and> status (heap (hd (snd (execute_order_run cbs ex r rnd now))) r) = PENDING"
proof -
  have mock: "mock_orders c i = Some ord \<and> is_terminal (status ord)
      \<longrightarrow> mock_orders (snd (mock_cancel_order c smb oid)) i = Some ord"
    by (auto simp add: mock_cancel_order_def is_terminal_def split: option.splits)
  have not_pending: "is_terminal (status (heap ex r)) \<and> (\<forall>k. pending_orders ex k \<noteq> Some r)
      \<longrightarrow> heap (snd (cancel_order ex xid)) r = heap ex r"
    by (auto simp add: cancel_order_def set_status_def remove_pending_def
        split: option.splits)
  have pending: "pending_orders ex' oid' = Some r' \<and> simulation_mode ex'
      \<longrightarrow> status (heap (snd (cancel_order ex' oid')) r') = CANCELLED
          \<and> pending_orders (snd (cancel_order ex' oid')) oid' = None"
    by (simp add: cancel_order_def set_status_def remove_pending_def)
  have first: "status (heap (hd (snd (execute_order_run cbs ex r rnd now))) r) = PENDING"
    by (simp add: execute_order_run_def set_status_def Let_def split: option.splits)
  from mock not_pending pending first show ?thesis by blast
qed

lemma ex_done_fields:
  "status (heap (snd (execute_order observing_callbacks ex_one_order 0 (1 / 2) 5)) 0) = FILLED"
  "pending_orders (snd (execute_order observing_callbacks ex_one_order 0 (1 / 2) 5)) = Map.empty"
  "completed_orders (snd (execute_order observing_callbacks ex_one_order 0 (1 / 2) 5)) = [0]"
  by (simp_all add: execute_order_def execute_order_run_def execute_order_simulation_def
      ex_one_order_def observing_callbacks_def safe_callback_def set_status_def
      remove_pending_def order_buy_btc_def blank_order_def Let_def)

lemma ex_registered_fields:
  "pending_orders (hd (snd (execute_order_run observing_callbacks ex_one_order 0 (1 / 2) 5)))
     ''BTCUSDT_1'' = Some 0"
  "simulation_mode (hd (snd (execute_order_run observing_callbacks ex_one_order 0 (1 / 2) 5)))"
  by (simp_all add: execute_order_run_def execute_order_simulation_def
      ex_one_order_def set_status_def order_buy_btc_def blank_order_def Let_def)

lemma str_of_nat_1: "str_of_nat (Suc 0) = ''1''"
  by code_simp

lemma mock_with_filled_order_fields:
  "map_option status (mock_orders mock_with_filled_order ''MOCK_1'') = Some FILLED"
  by (simp add: mock_with_filled_order_def mock_create_order_def Let_def str_of_nat_1
      del: str_of_nat.simps)

theorem cancel_order_terminal_status_witness:
  "map_option status (mock_orders mock_with_filled_order ''MOCK_1'') = Some FILLED
   \<and> is_terminal FILLED
   \<and> map_option status
       (mock_orders (snd (mock_cancel_order mock_with_filled_order ''BTCUSDT'' ''MOCK_1''))
          ''MOCK_1'') = Some FILLED
   \<and> status (heap (snd (execute_order observing_callbacks ex_one_order 0 (1 / 2) 5)) 0) = FILLED
   \<and> pending_orders (snd (execute_order observing_callbacks ex_one_order 0 (1 / 2) 5))
       = Map.empty
   \<and> status (heap (snd (cancel_order
                          (snd (execute_order observing_callbacks ex_one_order 0 (1 / 2) 5))
                          ''BTCUSDT_1'')) 0) = FILLED
   \<and> pending_orders (hd (snd (execute_order_run observing_callbacks ex_one_order 0 (1 / 2) 5)))
       ''BTCUSDT_1'' = Some 0
   \<and> simulation_mode (hd (snd (execute_order_run observing_callbacks ex_one_order 0 (1 / 2) 5)))
   \<and> status (heap (snd (cancel_order
                          (hd (snd (execute_order_run observing_callbacks ex_one_order 0
                                      (1 / 2) 5)))
                          ''BTCUSDT_1'')) 0) = CANCELLED"
proof -
  obtain ord where ord: "mock_orders mock_with_filled_order ''MOCK_1'' = Some ord"
    and st: "status ord = FILLED"
    using mock_with_filled_order_fields by (auto simp add: map_option_case split: option.splits)
  have fin: "is_terminal FILLED" by (simp add: is_terminal_def)
  note th = cancel_order_terminal_status
    [where c = mock_with_filled_order and i = "''MOCK_1''" and ord = ord
       and smb = "''BTCUSDT''" and oid = "''MOCK_1''" and xid = "''BTCUSDT_1''"
       and ex = "snd (execute_order observing_callbacks ex_one_order 0 (1 / 2) 5)" and r = 0
       and ex' = "hd (snd (execute_order_run observing_callbacks ex_one_order 0 (1 / 2) 5))"
       and oid' = "''BTCUSDT_1''" and r' = 0]
  have a: "map_option status
       (mock_orders (snd (mock_cancel_order mock_with_filled_order ''BTCUSDT'' ''MOCK_1''))
          ''MOCK_1'') = Some FILLED"
    using th ord st fin by simp
  have b: "status (heap (snd (cancel_order
                          (snd (execute_order observing_callbacks ex_one_order 0 (1 / 2) 5))
                          ''BTCUSDT_1'')) 0) = FILLED"
    using th fin by (simp add: ex_done_fields)
  have c: "status (heap (snd (cancel_order
                          (hd (snd (execute_order_run observing_callbacks ex_one_order 0
                                      (1 / 2) 5)))
                          ''BTCUSDT_1'')) 0) = CANCELLED"
    using th by (simp add: ex_registered_fields)
  from a b c fin show ?thesis
    by (simp add: ex_done_fields ex_registered_fields mock_with_filled_order_fields)
qed


end
